theory Spec2Isabelle
  imports Main "HOL-Library.Sublist" "HOL-Library.AList"
begin

section \<open>Byte strings as Python 2 sees them\<close>

text \<open>
  The module \<^verbatim>\<open>mvpa2/support/nibabel/afni_niml.py\<close> is Python 2 code over \<^verbatim>\<open>str\<close>
  buffers: a buffer is a list of bytes, here a \<^typ>\<open>string\<close>.  The character classes are the
  ones of the \<^verbatim>\<open>re\<close> module on byte strings without the LOCALE or UNICODE flag:
  \<^verbatim>\<open>\w\<close> is \<^verbatim>\<open>[a-zA-Z0-9_]\<close> and \<^verbatim>\<open>\s\<close> is \<^verbatim>\<open>[ \t\n\r\f\v]\<close>, which is also
  what \<^verbatim>\<open>strip()\<close> and \<^verbatim>\<open>split(None)\<close> take for whitespace.
\<close>

abbreviation dquote :: char where "dquote \<equiv> CHR 0x22"
abbreviation newline :: char where "newline \<equiv> CHR 0x0A"
abbreviation nullbyte :: char where "nullbyte \<equiv> CHR 0x00"

definition is_word :: "char \<Rightarrow> bool" where
  "is_word c =
     (let n = (of_char c :: nat)
      in (48 \<le> n \<and> n \<le> 57) \<or> (65 \<le> n \<and> n \<le> 90) \<or> n = 95 \<or> (97 \<le> n \<and> n \<le> 122))"

definition is_space :: "char \<Rightarrow> bool" where
  "is_space c = (c = CHR '' '' \<or> c = CHR 0x09 \<or> c = CHR 0x0A \<or> c = CHR 0x0B
                 \<or> c = CHR 0x0C \<or> c = CHR 0x0D)"

definition nonword :: "char \<Rightarrow> bool" where
  "nonword c = (\<not> is_word c)"

definition nonspace :: "char \<Rightarrow> bool" where
  "nonspace c = (\<not> is_space c)"

definition notquote :: "char \<Rightarrow> bool" where
  "notquote c = (c \<noteq> dquote)"

definition is_ascii :: "char \<Rightarrow> bool" where
  "is_ascii c = ((of_char c :: nat) < 128)"

text \<open>\<^verbatim>\<open>s.strip()\<close>, \<^verbatim>\<open>s.split(None)\<close>, \<^verbatim>\<open>s.split(sep)\<close> for a one-byte separator, and
  \<^verbatim>\<open>sep.join(xs)\<close>.\<close>

definition lstrip :: "string \<Rightarrow> string" where
  "lstrip s = dropWhile is_space s"

definition strip :: "string \<Rightarrow> string" where
  "strip s = rev (dropWhile is_space (rev (dropWhile is_space s)))"

fun split_ws_acc :: "string \<Rightarrow> string \<Rightarrow> string list" where
  "split_ws_acc cur [] = (if cur = [] then [] else [cur])"
| "split_ws_acc cur (c # cs) =
     (if is_space c then (if cur = [] then split_ws_acc [] cs else cur # split_ws_acc [] cs)
      else split_ws_acc (cur @ [c]) cs)"

definition split_ws :: "string \<Rightarrow> string list" where
  "split_ws s = split_ws_acc [] s"

fun split_char :: "char \<Rightarrow> string \<Rightarrow> string list" where
  "split_char sep [] = [[]]"
| "split_char sep (c # cs) =
     (if c = sep then [] # split_char sep cs
      else (case split_char sep cs of [] \<Rightarrow> [[c]] | x # xs \<Rightarrow> (c # x) # xs))"

fun join :: "string \<Rightarrow> string list \<Rightarrow> string" where
  "join sep [] = []"
| "join sep [x] = x"
| "join sep (x # y # ys) = x @ sep @ join sep (y # ys)"

text \<open>
  Python's indices may be negative.  \<open>py_index n i\<close> is the position a slice bound \<open>i\<close>
  denotes in a sequence of length \<open>n\<close>: a negative bound counts from the end, and every
  bound is clamped to \<open>0..n\<close>.  \<open>py_from s i\<close> is \<^verbatim>\<open>s[i:]\<close> and \<open>py_slice s i j\<close> is
  \<^verbatim>\<open>s[i:j]\<close>.
\<close>

definition py_index :: "nat \<Rightarrow> int \<Rightarrow> nat" where
  "py_index n i = (if i < 0 then nat (max 0 (int n + i)) else min (nat i) n)"

definition py_from :: "string \<Rightarrow> int \<Rightarrow> string" where
  "py_from s i = drop (py_index (length s) i) s"

definition py_slice :: "string \<Rightarrow> int \<Rightarrow> int \<Rightarrow> string" where
  "py_slice s i j =
     (let a = py_index (length s) i; b = py_index (length s) j in take (b - a) (drop a s))"

text \<open>\<^verbatim>\<open>s.startswith(p, i)\<close>: false when \<open>i\<close> lies beyond the end, else a prefix test on
  \<^verbatim>\<open>s[i:]\<close>.\<close>

definition startswith_at :: "string \<Rightarrow> string \<Rightarrow> int \<Rightarrow> bool" where
  "startswith_at s p i = (i \<le> int (length s) \<and> prefix p (py_from s i))"

text \<open>
  \<^verbatim>\<open>s.replace(old, new)\<close>: the occurrences of \<open>old\<close> are found from the left and do not
  overlap.  For an empty \<open>old\<close> Python puts \<open>new\<close> in front of every byte and at the end.
\<close>

function replace :: "string \<Rightarrow> string \<Rightarrow> string \<Rightarrow> string" where
  "replace old new s =
     (if old = [] then new @ concat (map (\<lambda>c. c # new) s)
      else if s = [] then []
      else if prefix old s then new @ replace old new (drop (length old) s)
      else hd s # replace old new (tl s))"
  by pat_completeness auto
termination
  by (relation "measure (\<lambda>(old, new, s). length s)") auto

declare replace.simps [simp del]

section \<open>Errors\<close>

text \<open>
  Every \<^verbatim>\<open>raise\<close> of the module and every exception of an operation it calls is a value.
  The module raises \<^verbatim>\<open>ValueError\<close> throughout; the constructors keep the raise sites
  apart by their messages.
\<close>

datatype error =
    Expected_rows                    \<comment> \<open>ValueError "Expected %d rows, but found %d"\<close>
  | Mixed_types_with_ni_form         \<comment> \<open>ValueError "Not supported: have ni_form with mixed types"\<close>
  | Unexpected_number_of_elements    \<comment> \<open>ValueError "unexpected number of elements"\<close>
  | Illegal_niform                   \<comment> \<open>ValueError "Illegal niform %s"\<close>
  | Illegal_form                     \<comment> \<open>ValueError "Illegal form %s"\<close>
  | Unexpected_end                   \<comment> \<open>ValueError "Unexpected end: [%s] "\<close>
  | Could_not_parse_string_data      \<comment> \<open>ValueError "Could not parse string data from pos %d: %s"\<close>
  | Not_found_expected_end_string    \<comment> \<open>ValueError "Not found expected end string %s"\<close>
  | Type_not_supported               \<comment> \<open>ValueError "Type not supported: %r"\<close>
  | Substring_not_found              \<comment> \<open>ValueError of \<^verbatim>\<open>s.index\<close>\<close>
  | Invalid_literal                  \<comment> \<open>ValueError of \<^verbatim>\<open>int()\<close> or of a registry convertor\<close>
  | Numpy_ValueError                 \<comment> \<open>ValueError of \<^verbatim>\<open>np.zeros\<close>, \<^verbatim>\<open>np.fromstring\<close>, \<^verbatim>\<open>np.reshape\<close>\<close>
  | Registry_error                   \<comment> \<open>an exception of \<^verbatim>\<open>afni_niml_types\<close>\<close>
  | Base64_error                     \<comment> \<open>TypeError of \<^verbatim>\<open>base64.b64decode\<close>\<close>
  | UnicodeError                     \<comment> \<open>a byte above 127 met by \<^verbatim>\<open>decode()\<close> or \<^verbatim>\<open>encode()\<close>\<close>
  | KeyError string                  \<comment> \<open>a key the dictionary lacks\<close>
  | IndexError                       \<comment> \<open>a list index out of range\<close>
  | TypeError                        \<comment> \<open>an operation on a value of the wrong type\<close>
  | AttributeError                   \<comment> \<open>a method the value does not have\<close>

text \<open>\<^verbatim>\<open>s.index(c, i)\<close> and the default (ASCII) \<^verbatim>\<open>decode()\<close> and \<^verbatim>\<open>encode()\<close>.\<close>

definition index_from :: "string \<Rightarrow> char \<Rightarrow> int \<Rightarrow> error + int" where
  "index_from s c i =
     (let a = py_index (length s) i; r = drop a s
      in if c \<in> set r then Inr (int (a + length (takeWhile (\<lambda>x. x \<noteq> c) r)))
         else Inl Substring_not_found)"

definition ascii :: "string \<Rightarrow> error + string" where
  "ascii s = (if list_all is_ascii s then Inr s else Inl UnicodeError)"

text \<open>\<^verbatim>\<open>int(s)\<close> for a string: surrounding whitespace, an optional sign, decimal digits.\<close>

definition is_digit :: "char \<Rightarrow> bool" where
  "is_digit c = (let n = (of_char c :: nat) in 48 \<le> n \<and> n \<le> 57)"

definition digits_value :: "string \<Rightarrow> nat" where
  "digits_value ds = foldl (\<lambda>acc c. 10 * acc + (of_char c - 48)) 0 ds"

definition py_int :: "string \<Rightarrow> error + int" where
  "py_int s =
     (let t = strip s;
          neg = (t \<noteq> [] \<and> hd t = CHR ''-'');
          ds = (if t \<noteq> [] \<and> (hd t = CHR ''-'' \<or> hd t = CHR ''+'') then tl t else t)
      in if ds \<noteq> [] \<and> list_all is_digit ds
         then Inr (if neg then - int (digits_value ds) else int (digits_value ds))
         else Inl Invalid_literal)"

section \<open>The escape table\<close>

text \<open>
  \<^verbatim>\<open>_ESCAPE\<close> is a dictionary from entity to character; \<^verbatim>\<open>decode_escape\<close> and
  \<^verbatim>\<open>encode_escape\<close> walk \<^verbatim>\<open>_ESCAPE.iteritems()\<close> and replace one entry after the other.
  The source does not fix the order in which a Python 2 dictionary is walked, so both
  functions take the walk as a list \<open>items\<close>; \<open>ESCAPE\<close> lists the entries as the literal
  writes them, and \<open>ESCAPE_cpython\<close> in the order CPython 2.7 stores these five keys in its
  hash table (slots 0, 1, 2, 5, 6 of 8).
\<close>

definition ESCAPE :: "(string \<times> string) list" where
  "ESCAPE = [(''&lt;'', ''<''), (''&gt;'', ''>''), (''&quot;'', [dquote]), (''&amp;'', ''&''),
             (''&apos;'', [CHR 0x27])]"

definition ESCAPE_cpython :: "(string \<times> string) list" where
  "ESCAPE_cpython = [(''&amp;'', ''&''), (''&apos;'', [CHR 0x27]), (''&quot;'', [dquote]),
                     (''&lt;'', ''<''), (''&gt;'', ''>'')]"

definition decode_escape :: "(string \<times> string) list \<Rightarrow> string \<Rightarrow> string" where
  "decode_escape items s = fold (\<lambda>(k, v) s. replace k v s) items s"

definition encode_escape :: "(string \<times> string) list \<Rightarrow> string \<Rightarrow> string" where
  "encode_escape items s = fold (\<lambda>(k, v) s. replace v k s) items s"

text \<open>
  What the spec says of the codec, character by character: each of the five reserved
  characters becomes its named entity, every other character stays.  \<open>markup\<close> are the
  reserved characters other than \<^verbatim>\<open>&\<close>, and \<open>escape_in D\<close> escapes the characters of
  \<open>D\<close> only.
\<close>

definition entity_of :: "char \<Rightarrow> string" where
  "entity_of c = (case map_of (map (\<lambda>(k, v). (hd v, k)) ESCAPE) c of None \<Rightarrow> [c] | Some k \<Rightarrow> k)"

definition spec_escape :: "string \<Rightarrow> string" where
  "spec_escape s = concat (map entity_of s)"

definition markup :: "char set" where
  "markup = {CHR ''<'', CHR ''>'', dquote, CHR 0x27}"

definition escape_in :: "char set \<Rightarrow> char \<Rightarrow> string" where
  "escape_in D c = (if c \<in> D then entity_of c else [c])"

section \<open>The regular expressions\<close>

text \<open>
  The module matches four patterns with \<^verbatim>\<open>re.match\<close> (anchored at the start of the slice)
  and \<^verbatim>\<open>re.findall\<close>.  Each is written out as the function the backtracking matcher
  computes; in each pattern the class that follows a repetition is disjoint from the class
  repeated, so every greedy repetition takes its longest run, except where noted.

  \<^verbatim>\<open>headerpat = \W*<(?P<name>\w+)\W(?P<header>.*?)>\<close> (DOTALL).  \<^verbatim>\<open><\<close> is itself a
  non-word byte, so \<^verbatim>\<open>\W*\<close> runs over it and gives it back: the \<^verbatim>\<open><\<close> that opens the
  name is the last byte of the longest run of non-word bytes.  The name is the longest run
  of word bytes, one further byte (any non-word byte, \<^verbatim>\<open>>\<close> included) is consumed by
  \<^verbatim>\<open>\W\<close>, and the lazy \<^verbatim>\<open>.*?\<close> stops at the first \<^verbatim>\<open>>\<close> after it.  The result is the name,
  the header text and \<^verbatim>\<open>m.end()\<close>.
\<close>

definition headerpat :: "string \<Rightarrow> (string \<times> string \<times> nat) option" where
  "headerpat s =
     (let pre = takeWhile nonword s; r1 = dropWhile nonword s;
          name = takeWhile is_word r1; r2 = dropWhile is_word r1
      in if pre = [] \<or> last pre \<noteq> CHR ''<'' \<or> name = [] \<or> r2 = [] then None
         else if CHR ''>'' \<notin> set (tl r2) then None
         else (let header = takeWhile (\<lambda>c. c \<noteq> CHR ''>'') (tl r2)
               in Some (name, header, length pre + length name + 1 + length header + 1)))"

text \<open>
  \<^verbatim>\<open>\W*</\w+>\s*\<close> (DOTALL): the longest run of non-word bytes ends with \<^verbatim>\<open></\<close>, a
  non-empty run of word bytes follows, then \<^verbatim>\<open>>\<close> and the longest run of whitespace.
  The result is \<^verbatim>\<open>m.end()\<close>.
\<close>

definition closepat :: "string \<Rightarrow> nat option" where
  "closepat s =
     (let pre = takeWhile nonword s; r1 = dropWhile nonword s;
          name = takeWhile is_word r1; r2 = dropWhile is_word r1
      in if length pre < 2 \<or> drop (length pre - 2) pre \<noteq> ''</'' \<or> name = [] then None
         else if r2 = [] \<or> hd r2 \<noteq> CHR ''>'' then None
         else Some (length pre + length name + 1 + length (takeWhile is_space (tl r2))))"

text \<open>
  \<^verbatim>\<open>\s*(?P<lhs>\w+)\s*=\s*"(?P<rhs>[^"]+)"\<close>, matched at the start of \<open>s\<close>: key, value and
  the length of the match.  \<^verbatim>\<open>[^"]+\<close> needs at least one byte.
\<close>

definition kvpat :: "string \<Rightarrow> (string \<times> string \<times> nat) option" where
  "kvpat s =
     (let w0 = takeWhile is_space s; r0 = dropWhile is_space s;
          k = takeWhile is_word r0; r1 = dropWhile is_word r0;
          w1 = takeWhile is_space r1; r2 = dropWhile is_space r1
      in if k = [] \<or> r2 = [] \<or> hd r2 \<noteq> CHR ''='' then None
         else (let w2 = takeWhile is_space (tl r2); r3 = dropWhile is_space (tl r2)
               in if r3 = [] \<or> hd r3 \<noteq> dquote then None
                  else (let v = takeWhile notquote (tl r3); r4 = dropWhile notquote (tl r3)
                        in if v = [] \<or> r4 = [] then None
                           else Some (k, v, length w0 + length k + length w1 + 1 + length w2
                                              + 1 + length v + 1))))"

text \<open>
  \<^verbatim>\<open>re.findall\<close> tries the pattern at the current position; after a match it goes on
  behind the match, after a failure one byte further.
\<close>

function findall_kv :: "string \<Rightarrow> (string \<times> string) list" where
  "findall_kv s =
     (if s = [] then []
      else (case kvpat s of
              None \<Rightarrow> findall_kv (tl s)
            | Some (k, v, e) \<Rightarrow> (k, v) # findall_kv (drop e s)))"
  by pat_completeness auto
termination
  by (relation "measure length")
     (auto simp: kvpat_def Let_def split: if_splits)

declare findall_kv.simps [simp del]

text \<open>
  \<^verbatim>\<open>strpat = \s*Q(?P<data>[^"]*)[^"]*Q\s*</NAME>\<close>, where \<open>Q\<close> is a double quote for
  string data and empty otherwise.  With the quote, the data is the run of bytes between
  the two quotes.  Without it, every part before the close tag matches only bytes other
  than the quote, the first \<^verbatim>\<open>\s*\<close> takes the leading whitespace, and the greedy data
  group takes all that is left up to the \<^emph>\<open>last\<close> close tag that starts before the first
  quote of the slice.  The result is the data and \<^verbatim>\<open>m.end()\<close>.
\<close>

definition close_tag :: "string \<Rightarrow> string" where
  "close_tag name = ''</'' @ name @ ''>''"

definition last_occurrence :: "string \<Rightarrow> string \<Rightarrow> nat option" where
  "last_occurrence pat z =
     (case filter (\<lambda>q. prefix pat (drop q z)) (rev [0..<Suc (length z)]) of
        [] \<Rightarrow> None | q # _ \<Rightarrow> Some q)"

definition strpat :: "bool \<Rightarrow> string \<Rightarrow> string \<Rightarrow> (string \<times> nat) option" where
  "strpat quoted name s =
     (let w = takeWhile is_space s; r = dropWhile is_space s
      in if quoted then
           (if r = [] \<or> hd r \<noteq> dquote then None
            else (let d = takeWhile notquote (tl r); r2 = dropWhile notquote (tl r)
                  in if r2 = [] then None
                     else (let w2 = takeWhile is_space (tl r2); r3 = dropWhile is_space (tl r2)
                           in if prefix (close_tag name) r3
                              then Some (d, length w + 1 + length d + 1 + length w2
                                            + length (close_tag name))
                              else None)))
         else
           (case last_occurrence (close_tag name) (takeWhile notquote s) of
              None \<Rightarrow> None
            | Some q \<Rightarrow> Some (take (q - length w) (drop (length w) s),
                              q + length (close_tag name))))"

section \<open>Dictionaries\<close>

text \<open>
  A Python dictionary with string keys is an association list with one entry per key.
  \<^verbatim>\<open>d[k] = v\<close> is \<^const>\<open>AList.update\<close>, \<^verbatim>\<open>d.pop(k, None)\<close> is \<^const>\<open>AList.delete\<close>,
  \<^verbatim>\<open>d.get(k)\<close> is \<^const>\<open>map_of\<close>, and \<^verbatim>\<open>dict(pairs)\<close> stores the pairs from left to right, a
  later pair replacing an earlier one with the same key.
\<close>

definition dict :: "(string \<times> 'v) list \<Rightarrow> (string \<times> 'v) list" where
  "dict pairs = fold (\<lambda>(k, v) d. AList.update k v d) pairs []"

text \<open>
  \<^verbatim>\<open>_parse_keyvalues\<close>: the pairs \<^verbatim>\<open>re.findall\<close> finds, key and value decoded.
\<close>

fun decode_pairs :: "(string \<times> string) list \<Rightarrow> error + (string \<times> string) list" where
  "decode_pairs [] = Inr []"
| "decode_pairs ((k, v) # m) =
     (case ascii k of Inl e \<Rightarrow> Inl e
      | Inr k' \<Rightarrow> (case ascii v of Inl e \<Rightarrow> Inl e
         | Inr v' \<Rightarrow> (case decode_pairs m of Inl e \<Rightarrow> Inl e
            | Inr m' \<Rightarrow> Inr ((k', v') # m'))))"

definition parse_keyvalues :: "string \<Rightarrow> error + (string \<times> string) list" where
  "parse_keyvalues s =
     (case decode_pairs (findall_kv s) of Inl e \<Rightarrow> Inl e | Inr m \<Rightarrow> Inr (dict m))"

section \<open>The type registry and the payload\<close>

text \<open>
  Modelled from the spec: the module \<^verbatim>\<open>mvpa2.support.nibabel.afni_niml_types\<close> (imported as
  \<^verbatim>\<open>types\<close>) is not among the sources.  The spec's Type Registry (section 4.1) names the
  scalar types it must support and their byte widths, and says of \<^verbatim>\<open>find_uniform_type\<close>
  that it "returns the single type when all columns match, else None".  A numpy type is
  identified with its type code, so \<^verbatim>\<open>code2numpy_type\<close> is the identity.
\<close>

datatype tcode = Int8 | Int16 | Int32 | Float32 | Float64 | StringT

fun numpy_type2bytecount :: "tcode \<Rightarrow> nat option" where
  "numpy_type2bytecount Int8 = Some 1"
| "numpy_type2bytecount Int16 = Some 2"
| "numpy_type2bytecount Int32 = Some 4"
| "numpy_type2bytecount Float32 = Some 4"
| "numpy_type2bytecount Float64 = Some 8"
| "numpy_type2bytecount StringT = None"

fun findonetype :: "tcode list \<Rightarrow> tcode option" where
  "findonetype [] = None"
| "findonetype (tp # tps) = (if list_all (\<lambda>t. t = tp) tps then Some tp else None)"

text \<open>
  The payload of a data element (\<^verbatim>\<open>niml['data']\<close>) is a string, a two-dimensional numpy
  array, or a list with one container per column (a list of strings or a one-dimensional
  array).  An array element is kept as the bytes numpy stores for it, in storage order, so
  two arrays hold the same numbers, bit for bit, exactly when their element lists are equal.
\<close>

datatype column = StrColumn "string list" | NumColumn tcode "string list"

datatype pdata =
    DString string
  | DArray tcode nat nat "string list"   \<comment> \<open>dtype, rows, columns, elements row by row\<close>
  | DMixed "column list"

text \<open>
  What the module takes from outside its own text: the order in which \<^verbatim>\<open>_ESCAPE\<close> is
  walked, the functions of \<^verbatim>\<open>afni_niml_types\<close> whose behaviour the spec leaves open, and
  the \<^verbatim>\<open>base64\<close> codec.  A convertor reads a text cell and gives the element as stored, a
  printer does the reverse; the printer of a string cell is the one of \<^const>\<open>StringT\<close>.
  \<^verbatim>\<open>byteorder_from_niform\<close> returns a dtype the module never uses, so only its failure
  is kept.
\<close>

record env =
  escape_items :: "(string \<times> string) list"
  str2codes :: "string \<Rightarrow> error + tcode list"
  sametype :: "tcode \<Rightarrow> string \<Rightarrow> bool"
  code2python_convertor :: "tcode \<Rightarrow> string \<Rightarrow> error + string"
  numpy_data2printer :: "tcode \<Rightarrow> string \<Rightarrow> string"
  byteorder_from_niform :: "string \<Rightarrow> tcode \<Rightarrow> error option"
  nimldataassupporteddtype :: "pdata \<Rightarrow> pdata"
  data2ni_form :: "pdata \<Rightarrow> string \<Rightarrow> string option"
  b64encode :: "string \<Rightarrow> string"
  b64decode :: "string \<Rightarrow> error + string"

text \<open>
  An element of the tree is a dictionary.  Its string entries (the header's attributes and
  \<^verbatim>\<open>'name'\<close>) are \<open>attrs\<close>; the entries with other values are fields, absent when
  \<open>None\<close>: \<^verbatim>\<open>'nodes'\<close>, \<^verbatim>\<open>'data'\<close>, \<^verbatim>\<open>'vec_typ'\<close>, \<^verbatim>\<open>'vec_len'\<close>, \<^verbatim>\<open>'vec_num'\<close>.
\<close>

datatype niml =
  Niml (attrs: "(string \<times> string) list") (nodes: "niml list option") (data: "pdata option")
       (vec_typ: "tcode list option") (vec_len: "int option") (vec_num: "nat option")

text \<open>Sequencing of steps that may raise, \<^verbatim>\<open>d[k]\<close> on a dictionary, and a \<^verbatim>\<open>map\<close> whose
  function may raise.\<close>

definition andthen :: "error + 'a \<Rightarrow> ('a \<Rightarrow> error + 'b) \<Rightarrow> error + 'b" where
  "andthen m f = (case m of Inl e \<Rightarrow> Inl e | Inr x \<Rightarrow> f x)"

definition getitem :: "(string \<times> 'v) list \<Rightarrow> string \<Rightarrow> error + 'v" where
  "getitem d k = (case map_of d k of None \<Rightarrow> Inl (KeyError k) | Some v \<Rightarrow> Inr v)"

definition getfield :: "string \<Rightarrow> 'v option \<Rightarrow> error + 'v" where
  "getfield k x = (case x of None \<Rightarrow> Inl (KeyError k) | Some v \<Rightarrow> Inr v)"

fun mapM :: "('a \<Rightarrow> error + 'b) \<Rightarrow> 'a list \<Rightarrow> error + 'b list" where
  "mapM f [] = Inr []"
| "mapM f (x # xs) =
     (case f x of Inl e \<Rightarrow> Inl e
      | Inr y \<Rightarrow> (case mapM f xs of Inl e \<Rightarrow> Inl e | Inr ys \<Rightarrow> Inr (y # ys)))"

subsection \<open>numpy\<close>

text \<open>
  \<^verbatim>\<open>np.fromstring(s, dtype)\<close> cuts \<open>s\<close> into elements of the dtype's width and fails when
  the length is not a multiple of it.  \<^verbatim>\<open>np.reshape(a, (nrows, ncols))\<close> fails unless the
  shape holds exactly the elements of \<open>a\<close>; a row count of -1 is computed from the size,
  any other negative row count fails.  \<^verbatim>\<open>np.zeros\<close> fails on a negative dimension.
\<close>

function chop :: "nat \<Rightarrow> string \<Rightarrow> string list" where
  "chop w s = (if w = 0 \<or> s = [] then [] else take w s # chop w (drop w s))"
  by pat_completeness auto
termination
  by (relation "measure (\<lambda>(w, s). length s)") auto

declare chop.simps [simp del]

definition np_fromstring :: "tcode \<Rightarrow> string \<Rightarrow> error + string list" where
  "np_fromstring tp s =
     (case numpy_type2bytecount tp of
        None \<Rightarrow> Inl Numpy_ValueError
      | Some w \<Rightarrow> if length s mod w \<noteq> 0 then Inl Numpy_ValueError else Inr (chop w s))"

definition np_reshape :: "nat \<Rightarrow> int \<Rightarrow> nat \<Rightarrow> error + nat \<times> nat" where
  "np_reshape n nrows ncols =
     (if 0 \<le> nrows then (if nat nrows * ncols = n then Inr (nat nrows, ncols)
                          else Inl Numpy_ValueError)
      else if nrows = - 1 \<and> 0 < ncols \<and> n mod ncols = 0 then Inr (n div ncols, ncols)
      else Inl Numpy_ValueError)"

subsection \<open>The byte count of a binary payload\<close>

text \<open>\<^verbatim>\<open>_binary_data_bytecount(niml)\<close>; the result \<open>None\<close> is Python's \<^verbatim>\<open>None\<close>.\<close>

definition binary_data_bytecount :: "niml \<Rightarrow> error + int option" where
  "binary_data_bytecount niml =
     andthen (getitem (attrs niml) ''ni_form'') (\<lambda>niform.
       if \<not> sublist ''binary'' niform then Inl Illegal_niform
       else andthen (getfield ''vec_typ'' (vec_typ niml)) (\<lambda>tps.
         case findonetype tps of
           None \<Rightarrow> Inr None
         | Some onetype \<Rightarrow>
             andthen (getfield ''vec_num'' (vec_num niml)) (\<lambda>ncols.
             andthen (getfield ''vec_len'' (vec_len niml)) (\<lambda>nrows.
               case numpy_type2bytecount onetype of
                 None \<Rightarrow> Inl Type_not_supported
               | Some bytes_per_elem \<Rightarrow> Inr (Some (int ncols * nrows * int bytes_per_elem))))))"

subsection \<open>Decoding a payload\<close>

text \<open>
  \<^verbatim>\<open>_mixedtypes_datastring2rawniml(s, niml)\<close>: one container per column.  A string column
  first collects its cells, then converts them; a numeric column takes and converts cell
  after cell.
\<close>

definition cell :: "string list list \<Rightarrow> nat \<Rightarrow> nat \<Rightarrow> error + string" where
  "cell elems col r =
     (if col < length (elems ! r) then Inr (elems ! r ! col) else Inl IndexError)"

definition mixed_column ::
  "env \<Rightarrow> niml \<Rightarrow> string list list \<Rightarrow> nat \<Rightarrow> (nat \<times> tcode) \<Rightarrow> error + column" where
  "mixed_column E niml elems nrows ct =
     (case ct of (col, tp) \<Rightarrow>
        if sametype E tp ''String''
        then andthen (mapM (cell elems col) [0..<nrows]) (\<lambda>cells.
             andthen (mapM (code2python_convertor E tp) cells) (\<lambda>d. Inr (StrColumn d)))
        else if map_of (attrs niml) ''ni_form'' \<noteq> None then Inl Mixed_types_with_ni_form
        else andthen (mapM (\<lambda>r. andthen (cell elems col r) (code2python_convertor E tp))
                           [0..<nrows])
                     (\<lambda>d. Inr (NumColumn tp d)))"

definition mixedtypes_datastring2rawniml :: "env \<Rightarrow> string \<Rightarrow> niml \<Rightarrow> error + pdata" where
  "mixedtypes_datastring2rawniml E s niml =
     andthen (getfield ''vec_typ'' (vec_typ niml)) (\<lambda>tps.
     andthen (getfield ''vec_len'' (vec_len niml)) (\<lambda>nrows.
       let lines = split_char newline (strip s)
       in if int (length lines) \<noteq> nrows then Inl Expected_rows
          else (let elems = map (\<lambda>x. split_char (CHR '' '') (strip x)) lines
                in andthen (mapM (mixed_column E niml elems (length lines))
                                 (zip [0..<length tps] tps))
                           (\<lambda>cols. Inr (DMixed cols)))))"

text \<open>
  \<^verbatim>\<open>_datastring2rawniml(s, niml)\<close>.  \<open>text_array\<close> is the branch taken when there is no
  \<^verbatim>\<open>ni_form\<close>, or an empty one, or \<^verbatim>\<open>'text'\<close>; \<open>raw_array\<close> is the other branch.  The
  dtype \<^verbatim>\<open>byteorder_from_niform\<close> returns is not used: \<^verbatim>\<open>np.fromstring\<close> is called with
  \<^verbatim>\<open>tp\<close>, the type in native byte order.
\<close>

definition text_array :: "env \<Rightarrow> tcode \<Rightarrow> int \<Rightarrow> nat \<Rightarrow> string \<Rightarrow> error + pdata" where
  "text_array E onetype nrows ncols s =
     (if nrows < 0 then Inl Numpy_ValueError
      else (let vals = split_ws s
            in if int (length vals) \<noteq> int ncols * nrows
               then Inl Unexpected_number_of_elements
               else andthen (mapM (code2python_convertor E onetype) vals)
                      (\<lambda>d. Inr (DArray onetype (nat nrows) ncols d))))"

definition raw_array ::
  "env \<Rightarrow> string \<Rightarrow> tcode \<Rightarrow> int \<Rightarrow> nat \<Rightarrow> string \<Rightarrow> error + pdata" where
  "raw_array E niform onetype nrows ncols s =
     (case byteorder_from_niform E niform onetype of
        Some e \<Rightarrow> Inl e
      | None \<Rightarrow>
          andthen (if sublist ''base64'' niform then b64decode E s
                   else if \<not> sublist ''binary'' niform then Inl Illegal_niform
                   else Inr s) (\<lambda>raw.
          andthen (np_fromstring onetype raw) (\<lambda>data_1d.
          andthen (np_reshape (length data_1d) nrows ncols) (\<lambda>(r, c).
            Inr (DArray onetype r c data_1d)))))"

definition datastring2rawniml :: "env \<Rightarrow> string \<Rightarrow> niml \<Rightarrow> error + pdata" where
  "datastring2rawniml E s niml =
     andthen (getfield ''vec_typ'' (vec_typ niml)) (\<lambda>tps.
       case findonetype tps of
         None \<Rightarrow> mixedtypes_datastring2rawniml E s niml
       | Some onetype \<Rightarrow>
           andthen (str2codes E ''string'') (\<lambda>strcodes.
             if [onetype] = strcodes
             then andthen (ascii s) (\<lambda>u. Inr (DString (decode_escape (escape_items E) u)))
             else
               andthen (getfield ''vec_num'' (vec_num niml)) (\<lambda>ncols.
               andthen (getfield ''vec_len'' (vec_len niml)) (\<lambda>nrows.
                 case map_of (attrs niml) ''ni_form'' of
                   None \<Rightarrow> text_array E onetype nrows ncols s
                 | Some niform \<Rightarrow>
                     if niform = [] \<or> niform = ''text''
                     then text_array E onetype nrows ncols s
                     else raw_array E niform onetype nrows ncols s))))"

section \<open>The parser\<close>

text \<open>
  Storing a field in the dictionary: the key then has this value and no string value.
\<close>

definition set_vecs :: "tcode list \<Rightarrow> int \<Rightarrow> nat \<Rightarrow> niml \<Rightarrow> niml" where
  "set_vecs tps n m x =
     Niml (AList.delete ''vec_num'' (AList.delete ''vec_len'' (AList.delete ''vec_typ'' (attrs x))))
          (nodes x) (data x) (Some tps) (Some n) (Some m)"

definition set_data :: "pdata \<Rightarrow> niml \<Rightarrow> niml" where
  "set_data d x =
     Niml (AList.delete ''data'' (attrs x)) (nodes x) (Some d) (vec_typ x) (vec_len x) (vec_num x)"

definition set_nodes :: "niml list \<Rightarrow> niml \<Rightarrow> niml" where
  "set_nodes ns x =
     Niml (AList.delete ''nodes'' (attrs x)) (Some ns) (data x) (vec_typ x) (vec_len x) (vec_num x)"

text \<open>
  \<^verbatim>\<open>s[i + m.end():].replace(chr(0), '').strip()\<close> is empty.
\<close>

definition remaining_empty :: "string \<Rightarrow> bool" where
  "remaining_empty r = (strip (replace [nullbyte] [] r) = [])"

text \<open>
  \<^verbatim>\<open>if s.startswith('<?xml', i): i = s.index('>', i) + 1\<close>
\<close>

definition skip_xml :: "string \<Rightarrow> int \<Rightarrow> error + int" where
  "skip_xml s i =
     (if startswith_at s ''<?xml'' i
      then andthen (index_from s (CHR ''>'') i) (\<lambda>k. Inr (k + 1))
      else Inr i)"

text \<open>
  \<^verbatim>\<open>niml = _parse_keyvalues(header); niml['name'] = name.decode()\<close>
\<close>

definition element_header :: "string \<Rightarrow> string \<Rightarrow> error + niml" where
  "element_header name header =
     andthen (parse_keyvalues header) (\<lambda>d.
     andthen (ascii name) (\<lambda>n.
       Inr (Niml (AList.update ''name'' n d) None None None None None)))"

text \<open>
  The scanning path (lines 408 to 447): the payload is what \<^verbatim>\<open>strpat\<close> captures, decoded
  by \<^verbatim>\<open>_datastring2rawniml\<close> and, for string data, passed through \<^verbatim>\<open>decode_escape\<close> once
  more.
\<close>

definition string_body ::
  "env \<Rightarrow> string \<Rightarrow> int \<Rightarrow> string \<Rightarrow> bool \<Rightarrow> niml \<Rightarrow> error + int \<times> niml" where
  "string_body E s i name is_string_data niml =
     (case strpat is_string_data name (py_from s i) of
        None \<Rightarrow> Inl Could_not_parse_string_data
      | Some (d, e) \<Rightarrow>
          andthen (datastring2rawniml E d niml) (\<lambda>dat.
          andthen (if is_string_data
                   then (case dat of
                           DString x \<Rightarrow> Inr (DString (decode_escape (escape_items E) x))
                         | _ \<Rightarrow> Inl AttributeError)
                   else Inr dat) (\<lambda>dat'.
            Inr (i + int e, set_data dat' niml))))"

text \<open>
  The analytical path (lines 449 to 477).  For base64 the payload runs to the next
  \<^verbatim>\<open><\<close> found from position \<open>i + 1\<close> on; for raw binary it is the slice of the computed
  number of bytes, and \<^verbatim>\<open>i + None\<close> is a TypeError when there is no count.  The close tag
  is compared after the payload has been decoded.
\<close>

definition binary_body ::
  "env \<Rightarrow> string \<Rightarrow> int \<Rightarrow> string \<Rightarrow> niml \<Rightarrow> error + int \<times> niml" where
  "binary_body E s i name niml =
     andthen (getitem (attrs niml) ''ni_form'') (\<lambda>niform.
     andthen (if sublist ''base64'' niform
              then andthen (index_from s (CHR ''<'') (i + 1)) (\<lambda>endpos.
                     Inr (py_slice s i endpos, int (length (py_slice s i endpos))))
              else andthen (binary_data_bytecount niml) (\<lambda>nb.
                     case nb of
                       None \<Rightarrow> Inl TypeError
                     | Some nbytes \<Rightarrow> Inr (py_slice s i (i + nbytes), nbytes)))
       (\<lambda>(datastring, nbytes).
          andthen (datastring2rawniml E datastring niml) (\<lambda>dat.
          andthen (ascii (py_slice s (i + nbytes)
                                   (i + nbytes + int (length (close_tag name))))) (\<lambda>found.
            if found \<noteq> close_tag name then Inl Not_found_expected_end_string
            else Inr (i + nbytes + int (length (close_tag name)), set_data dat niml)))))"

text \<open>
  A normal element with data (lines 395 to 477), from the position behind its header.
\<close>

definition data_element ::
  "env \<Rightarrow> string \<Rightarrow> int \<Rightarrow> string \<Rightarrow> niml \<Rightarrow> error + int \<times> niml" where
  "data_element E s i name niml0 =
     andthen (getitem (attrs niml0) ''ni_type'') (\<lambda>datatypes.
     andthen (str2codes E datatypes) (\<lambda>tps.
     andthen (getitem (attrs niml0) ''ni_dimen'') (\<lambda>dimen.
     andthen (py_int dimen) (\<lambda>n.
       let niml = set_vecs tps n (length tps) niml0
       in if datatypes = ''String'' \<or> map_of (attrs niml) ''ni_form'' = None
          then string_body E s i name (datatypes = ''String'') niml
          else binary_body E s i name niml))))"

text \<open>
  \<^verbatim>\<open>string2rawniml(s, i)\<close>: the \<^verbatim>\<open>while True\<close> loop with its state, the position \<open>i\<close> and
  the elements \<open>nimls\<close> found so far.  The loop has no bound of its own, so the result is
  an option: \<open>None\<close> is a run that never returns.  A close tag ends the loop only when
  nothing but null bytes and whitespace follows it in the whole buffer, and the position
  returned is the one \<^emph>\<open>before\<close> that close tag.
\<close>

partial_function (option) string2rawniml_loop ::
  "env \<Rightarrow> string \<Rightarrow> int \<Rightarrow> niml list \<Rightarrow> (error + int \<times> niml list) option" where
  "string2rawniml_loop E s i nimls =
     (case skip_xml s i of
        Inl err \<Rightarrow> Some (Inl err)
      | Inr i1 \<Rightarrow>
         (case headerpat (py_from s i1) of
            None \<Rightarrow>
              (case closepat (py_from s i1) of
                 None \<Rightarrow> Some (Inl Unexpected_end)
               | Some e \<Rightarrow>
                   if remaining_empty (py_from s (i1 + int e)) then Some (Inr (i1, nimls))
                   else Some (Inl Unexpected_end))
          | Some (name, header, e) \<Rightarrow>
              (case element_header name header of
                 Inl err \<Rightarrow> Some (Inl err)
               | Inr niml \<Rightarrow>
                   if map_of (attrs niml) ''ni_form'' = Some ''ni_group''
                   then Option.bind (string2rawniml_loop E s (i1 + int e) [])
                          (\<lambda>r. case r of
                                  Inl err \<Rightarrow> Some (Inl err)
                                | Inr (j, ns) \<Rightarrow>
                                    string2rawniml_loop E s j (nimls @ [set_nodes ns niml]))
                   else (case data_element E s (i1 + int e) name niml of
                           Inl err \<Rightarrow> Some (Inl err)
                         | Inr (j, el) \<Rightarrow> string2rawniml_loop E s j (nimls @ [el])))))"

declare string2rawniml_loop.simps [code]

text \<open>\<^verbatim>\<open>string2rawniml(s)\<close>, with \<open>i\<close> left at \<^verbatim>\<open>None\<close>: the elements alone.\<close>

definition string2rawniml :: "env \<Rightarrow> string \<Rightarrow> (error + niml list) option" where
  "string2rawniml E s =
     (case string2rawniml_loop E s 0 [] of
        None \<Rightarrow> None
      | Some (Inl err) \<Rightarrow> Some (Inl err)
      | Some (Inr (i, nimls)) \<Rightarrow> Some (Inr nimls))"

section \<open>The serializer\<close>

text \<open>
  \<^verbatim>\<open>_data2string(data, form)\<close>.  A string is escaped and quoted.  An array is printed row
  by row in text form; in the other two forms its elements are written out in storage
  order (\<^verbatim>\<open>reshape\<close> followed by \<^verbatim>\<open>tostring\<close> leaves the order as it is).  A list of
  columns is always printed as text, whatever the form.
\<close>

definition array_row :: "nat \<Rightarrow> string list \<Rightarrow> nat \<Rightarrow> string list" where
  "array_row ncols elems row = take ncols (drop (row * ncols) elems)"

definition column_cells :: "column \<Rightarrow> string list" where
  "column_cells c = (case c of StrColumn xs \<Rightarrow> xs | NumColumn tp xs \<Rightarrow> xs)"

definition column_printer :: "env \<Rightarrow> column \<Rightarrow> error + (string \<Rightarrow> string)" where
  "column_printer E c =
     (case c of
        StrColumn xs \<Rightarrow> if xs = [] then Inl IndexError else Inr (numpy_data2printer E StringT)
      | NumColumn tp xs \<Rightarrow> Inr (numpy_data2printer E tp))"

definition mixed_cell :: "nat \<Rightarrow> (string \<Rightarrow> string) \<times> column \<Rightarrow> error + string" where
  "mixed_cell row fc =
     (case fc of (f, c) \<Rightarrow>
        if row < length (column_cells c) then Inr (f (column_cells c ! row))
        else Inl IndexError)"

definition data2string :: "env \<Rightarrow> pdata \<Rightarrow> string \<Rightarrow> error + string" where
  "data2string E dat form =
     (case dat of
        DString x \<Rightarrow> ascii ([dquote] @ encode_escape (escape_items E) x @ [dquote])
      | DArray tp nrows ncols elems \<Rightarrow>
          if form = ''text''
          then ascii (join [newline]
                 (map (\<lambda>row. join '' '' (map (numpy_data2printer E tp) (array_row ncols elems row)))
                      [0..<nrows]))
          else if form = ''binary'' then Inr (concat elems)
          else if form = ''base64'' then Inr (b64encode E (concat elems))
          else Inl Illegal_form
      | DMixed cols \<Rightarrow>
          if cols = [] then Inr []
          else andthen (mapM (column_printer E) cols) (\<lambda>fs.
               andthen (mapM (\<lambda>row. andthen (mapM (mixed_cell row) (zip fs cols))
                                              (\<lambda>cells. Inr (join '' '' cells)))
                             [0..<length (column_cells (hd cols))])
                       (\<lambda>rows. ascii (join [newline] rows))))"

text \<open>
  \<^verbatim>\<open>_header2string(p)\<close> with its default \<^verbatim>\<open>keyfirst\<close> and \<^verbatim>\<open>keylast\<close>.  The other keys
  come out of a Python set, whose order the source does not fix; here they keep the order
  of the dictionary.
\<close>

definition keyfirst :: "string list" where
  "keyfirst = [''dset_type'', ''self_idcode'', ''filename'', ''data_type'']"

definition keylast :: "string list" where
  "keylast = [''ni_form'']"

definition header_kvs :: "(string \<times> string) list \<Rightarrow> (string \<times> string) list" where
  "header_kvs p =
     (let otherkeys = filter (\<lambda>k. k \<notin> set keyfirst \<and> k \<notin> set keylast) (map fst p)
      in concat (map (\<lambda>k. case map_of p k of None \<Rightarrow> [] | Some v \<Rightarrow> [(k, v)])
                     (keyfirst @ otherkeys @ keylast)))"

definition header_line :: "string \<times> string \<Rightarrow> string" where
  "header_line kv = ''   '' @ fst kv @ ''='' @ [dquote] @ snd kv @ [dquote]"

definition header2string :: "(string \<times> string) list \<Rightarrow> error + string" where
  "header2string p = ascii (join [newline] (map header_line (header_kvs p)))"

text \<open>
  \<^verbatim>\<open>rawniml2string(p, form)\<close> for one element, and for a list of elements (the document, or
  the \<^verbatim>\<open>'nodes'\<close> of a group), whose strings are joined by a newline.  For a data element
  the copy \<open>q\<close> of the dictionary loses \<^verbatim>\<open>'data'\<close>, \<^verbatim>\<open>'vec_typ'\<close>, \<^verbatim>\<open>'vec_len'\<close> and
  \<^verbatim>\<open>'vec_num'\<close>, and its \<^verbatim>\<open>'ni_form'\<close> is removed (text) or set from the data (binary,
  base64); every other entry goes into the header as it came.
\<close>

definition element_string :: "string \<Rightarrow> string \<Rightarrow> string \<Rightarrow> string" where
  "element_string s_name s_header s_body =
     ''<'' @ s_name @ [newline] @ s_header @ '' >'' @ s_body @ ''</'' @ s_name @ ''>''"

definition data_body ::
  "env \<Rightarrow> (string \<times> string) list \<Rightarrow> pdata option \<Rightarrow> string
     \<Rightarrow> error + (string \<times> string) list \<times> string" where
  "data_body E q dat form =
     andthen (getfield ''data'' dat) (\<lambda>d0.
       let d = nimldataassupporteddtype E d0
       in andthen (data2string E d form) (\<lambda>s_body.
            Inr (if form = ''text'' then AList.delete ''ni_form'' q
                 else (case data2ni_form E d form of
                         None \<Rightarrow> q
                       | Some byteorder \<Rightarrow> AList.update ''ni_form'' byteorder q),
                 s_body)))"

definition finish_element :: "(string \<times> string) list \<Rightarrow> string \<Rightarrow> error + string" where
  "finish_element q s_body =
     (case map_of q ''name'' of
        None \<Rightarrow> Inl AttributeError
      | Some name \<Rightarrow>
          andthen (ascii name) (\<lambda>s_name.
          andthen (header2string (AList.delete ''name'' q)) (\<lambda>s_header.
            Inr (element_string s_name s_header s_body))))"

fun rawniml2string :: "env \<Rightarrow> niml \<Rightarrow> string \<Rightarrow> error + string"
  and rawniml2string_nodes :: "env \<Rightarrow> niml list \<Rightarrow> string \<Rightarrow> error + string list" where
  "rawniml2string E (Niml q ns dat vt vl vn) form =
     (if form \<noteq> ''text'' \<and> form \<noteq> ''binary'' \<and> form \<noteq> ''base64'' then Inl Illegal_form
      else (case ns of
              Some children \<Rightarrow>
                (case rawniml2string_nodes E children form of
                   Inl err \<Rightarrow> Inl err
                 | Inr bodies \<Rightarrow> finish_element q (join [newline] bodies))
            | None \<Rightarrow>
                (case data_body E q dat form of
                   Inl err \<Rightarrow> Inl err
                 | Inr (q', s_body) \<Rightarrow> finish_element q' s_body)))"
| "rawniml2string_nodes E [] form = Inr []"
| "rawniml2string_nodes E (p # ps) form =
     (case rawniml2string E p form of
        Inl err \<Rightarrow> Inl err
      | Inr x \<Rightarrow> (case rawniml2string_nodes E ps form of
                   Inl err \<Rightarrow> Inl err
                 | Inr xs \<Rightarrow> Inr (x # xs)))"

definition rawniml2string_list :: "env \<Rightarrow> niml list \<Rightarrow> string \<Rightarrow> error + string" where
  "rawniml2string_list E ps form =
     andthen (rawniml2string_nodes E ps form) (\<lambda>xs. Inr (join [newline] xs))"

section \<open>A registry for the examples\<close>

text \<open>
  Modelled from the spec: \<^verbatim>\<open>afni_niml_types\<close> is not among the sources, and the spec gives
  its contract (section 4.1: a converter from and to text per type; section 6: the header
  vocabulary) but no text formats.  The examples below run with this registry: a type list
  is a comma-separated list of type names, each with an optional repeat count
  (\<^verbatim>\<open>3*float\<close>); an integer is written in decimal and stored in two's complement, least
  significant byte first; a string cell is its own text; the text form of a floating-point
  number is outside the model, so its convertor fails; arrays are written in the byte order
  \<^verbatim>\<open>lsbfirst\<close>; \<^verbatim>\<open>base64\<close> is the standard alphabet with padding.
\<close>

definition type_names :: "(string \<times> tcode) list" where
  "type_names = [(''byte'', Int8), (''short'', Int16), (''int'', Int32), (''float'', Float32),
                 (''double'', Float64), (''String'', StringT), (''string'', StringT)]"

definition one_str2codes :: "string \<Rightarrow> error + tcode list" where
  "one_str2codes part =
     (let p = strip part
      in if CHR ''*'' \<in> set p
         then andthen (py_int (takeWhile (\<lambda>c. c \<noteq> CHR ''*'') p)) (\<lambda>n.
              andthen (case map_of type_names (tl (dropWhile (\<lambda>c. c \<noteq> CHR ''*'') p)) of
                         None \<Rightarrow> Inl Registry_error | Some tp \<Rightarrow> Inr tp) (\<lambda>tp.
                Inr (replicate (nat n) tp)))
         else (case map_of type_names p of None \<Rightarrow> Inl Registry_error | Some tp \<Rightarrow> Inr [tp]))"

definition example_str2codes :: "string \<Rightarrow> error + tcode list" where
  "example_str2codes s =
     andthen (mapM one_str2codes (split_char (CHR '','') s)) (\<lambda>xs. Inr (concat xs))"

definition int_bytes :: "nat \<Rightarrow> int \<Rightarrow> string" where
  "int_bytes w n = map (\<lambda>k. char_of ((n div 256 ^ k) mod 256)) [0..<w]"

definition bytes_int :: "string \<Rightarrow> int" where
  "bytes_int bs =
     (let u = foldr (\<lambda>c acc. int (of_char c) + 256 * acc) bs 0
      in if 2 * u < 256 ^ length bs then u else u - 256 ^ length bs)"

fun nat_digits :: "nat \<Rightarrow> nat \<Rightarrow> string" where
  "nat_digits 0 n = []"
| "nat_digits (Suc fuel) n =
     (if n < 10 then [char_of (48 + n)]
      else nat_digits fuel (n div 10) @ [char_of (48 + n mod 10)])"

definition int_text :: "int \<Rightarrow> string" where
  "int_text n =
     (if n < 0 then CHR ''-'' # nat_digits (Suc (nat (- n))) (nat (- n))
      else nat_digits (Suc (nat n)) (nat n))"

definition example_convertor :: "tcode \<Rightarrow> string \<Rightarrow> error + string" where
  "example_convertor tp x =
     (case tp of
        StringT \<Rightarrow> Inr x
      | Float32 \<Rightarrow> Inl Registry_error
      | Float64 \<Rightarrow> Inl Registry_error
      | _ \<Rightarrow> andthen (py_int x) (\<lambda>n.
               case numpy_type2bytecount tp of
                 None \<Rightarrow> Inl Registry_error
               | Some w \<Rightarrow> Inr (int_bytes w n)))"

definition example_printer :: "tcode \<Rightarrow> string \<Rightarrow> string" where
  "example_printer tp x =
     (case tp of
        StringT \<Rightarrow> x
      | Float32 \<Rightarrow> ''?''
      | Float64 \<Rightarrow> ''?''
      | _ \<Rightarrow> int_text (bytes_int x))"

definition example_data2ni_form :: "pdata \<Rightarrow> string \<Rightarrow> string option" where
  "example_data2ni_form dat form =
     (case dat of
        DArray tp nrows ncols elems \<Rightarrow>
          if form = ''binary'' \<or> form = ''base64'' then Some (form @ ''.lsbfirst'') else None
      | _ \<Rightarrow> None)"

definition b64chars :: string where
  "b64chars = ''ABCDEFGHIJKLMNOPQRSTUVWXYZabcdefghijklmnopqrstuvwxyz0123456789+/''"

definition sextet :: "nat \<Rightarrow> nat \<Rightarrow> char" where
  "sextet n k = b64chars ! ((n div 64 ^ k) mod 64)"

fun example_b64encode :: "string \<Rightarrow> string" where
  "example_b64encode [] = []"
| "example_b64encode [a] =
     (let n = of_char a * 65536 in [sextet n 3, sextet n 2] @ ''=='')"
| "example_b64encode [a, b] =
     (let n = of_char a * 65536 + of_char b * 256 in [sextet n 3, sextet n 2, sextet n 1] @ ''='')"
| "example_b64encode (a # b # c # rest) =
     (let n = of_char a * 65536 + of_char b * 256 + of_char c
      in [sextet n 3, sextet n 2, sextet n 1, sextet n 0] @ example_b64encode rest)"

definition b64value :: "char \<Rightarrow> nat option" where
  "b64value c = (if c \<in> set b64chars then Some (length (takeWhile (\<lambda>x. x \<noteq> c) b64chars))
                 else None)"

fun example_b64decode :: "string \<Rightarrow> error + string" where
  "example_b64decode [] = Inr []"
| "example_b64decode (a # b # c # d # rest) =
     (case (b64value a, b64value b) of
        (Some x, Some y) \<Rightarrow>
          (if c = CHR ''='' \<and> d = CHR ''='' \<and> rest = []
           then Inr [char_of ((x * 64 + y) div 16)]
           else (case b64value c of
                   None \<Rightarrow> Inl Base64_error
                 | Some z \<Rightarrow>
                     if d = CHR ''='' \<and> rest = []
                     then Inr [char_of ((x * 64 + y) div 16), char_of ((y * 64 + z) div 4)]
                     else (case b64value d of
                             None \<Rightarrow> Inl Base64_error
                           | Some u \<Rightarrow>
                               (case example_b64decode rest of
                                  Inl e \<Rightarrow> Inl e
                                | Inr bs \<Rightarrow>
                                    Inr ([char_of ((x * 64 + y) div 16),
                                          char_of ((y * 64 + z) div 4),
                                          char_of (z * 64 + u)] @ bs)))))
      | _ \<Rightarrow> Inl Base64_error)"
| "example_b64decode _ = Inl Base64_error"

definition example_env :: env where
  "example_env =
     \<lparr> escape_items = ESCAPE_cpython,
       str2codes = example_str2codes,
       sametype = (\<lambda>tp name. example_str2codes name = Inr [tp]),
       code2python_convertor = example_convertor,
       numpy_data2printer = example_printer,
       byteorder_from_niform = (\<lambda>niform tp. None),
       nimldataassupporteddtype = (\<lambda>d. d),
       data2ni_form = example_data2ni_form,
       b64encode = example_b64encode,
       b64decode = example_b64decode \<rparr>"

section \<open>The key-value scanner\<close>

lemma kvpat_SomeD:
  "kvpat s = Some (k, v, e) \<Longrightarrow> v \<noteq> [] \<and> k \<noteq> [] \<and> 0 < e"
  by (auto simp: kvpat_def Let_def split: if_splits)

lemma findall_kv_values: "(k, v) \<in> set (findall_kv s) \<Longrightarrow> v \<noteq> []"
proof (induction s rule: findall_kv.induct)
  case (1 s)
  show ?case
  proof (cases "s = []")
    case True
    with "1.prems" show ?thesis by (simp add: findall_kv.simps)
  next
    case False
    show ?thesis
    proof (cases "kvpat s")
      case None
      with False "1.prems" "1.IH"(1) show ?thesis
        by (subst (asm) findall_kv.simps) simp
    next
      case (Some r)
      obtain k' v' e where r: "r = (k', v', e)" by (cases r)
      from Some r have "v' \<noteq> []" using kvpat_SomeD by blast
      moreover from False Some r "1.prems"
      have "(k, v) = (k', v') \<or> (k, v) \<in> set (findall_kv (drop e s))"
        by (subst (asm) findall_kv.simps) simp
      ultimately show ?thesis using "1.IH"(2)[OF False Some r[symmetric]] r
        by auto
    qed
  qed
qed

lemma ascii_Inr: "ascii s = Inr u \<Longrightarrow> u = s"
  by (auto simp: ascii_def split: if_splits)

lemma decode_pairs_Inr: "decode_pairs m = Inr m' \<Longrightarrow> m' = m"
  by (induction m arbitrary: m' rule: decode_pairs.induct)
     (auto split: sum.splits dest: ascii_Inr)

lemma set_update_subset: "set (AList.update k v al) \<subseteq> insert (k, v) (set al)"
  by (induction al) (auto simp: AList.update.simps)

lemma set_fold_update:
  "set (fold (\<lambda>(k, v) d. AList.update k v d) m d0) \<subseteq> set m \<union> set d0"
proof (induction m arbitrary: d0)
  case Nil then show ?case by simp
next
  case (Cons a m)
  obtain k v where a: "a = (k, v)" by (cases a)
  show ?case using Cons.IH[of "AList.update k v d0"] set_update_subset[of k v d0] a
    by auto
qed

lemma set_dict: "set (dict m) \<subseteq> set m"
  using set_fold_update[of m "[]"] by (simp add: dict_def)

lemma word_not_space: "is_word c \<Longrightarrow> \<not> is_space c"
  by (auto simp: is_word_def is_space_def Let_def)

lemma takeWhile_all: "list_all P xs \<Longrightarrow> takeWhile P (xs @ ys) = xs @ takeWhile P ys"
  by (induction xs) auto

lemma dropWhile_all: "list_all P xs \<Longrightarrow> dropWhile P (xs @ ys) = dropWhile P ys"
  by (induction xs) auto

lemma takeWhile_space_word [simp]:
  "list_all is_word key \<Longrightarrow> takeWhile is_space (key @ CHR ''='' # r) = []"
proof (cases key)
  case Nil
  then show ?thesis by (simp add: is_space_def)
next
  case (Cons c cs)
  assume "list_all is_word key"
  with Cons show ?thesis by (simp add: word_not_space)
qed

lemma dropWhile_space_word [simp]:
  "list_all is_word key \<Longrightarrow> dropWhile is_space (key @ CHR ''='' # r) = key @ CHR ''='' # r"
proof (cases key)
  case Nil
  then show ?thesis by (simp add: is_space_def)
next
  case (Cons c cs)
  assume "list_all is_word key"
  with Cons show ?thesis by (simp add: word_not_space)
qed

lemma kvpat_empty_value:
  assumes "list_all is_space ws" "list_all is_word key"
  shows "kvpat (ws @ key @ ''='' @ [dquote, dquote] @ rest) = None"
  using assms
  by (simp add: kvpat_def Let_def takeWhile_all dropWhile_all is_word_def is_space_def notquote_def)

lemma findall_kv_step:
  "s \<noteq> [] \<Longrightarrow> kvpat s = None \<Longrightarrow> findall_kv s = findall_kv (tl s)"
  by (subst findall_kv.simps) simp

lemma findall_kv_skip_key:
  "list_all is_word key \<Longrightarrow>
   findall_kv (key @ ''='' @ [dquote, dquote] @ rest) = findall_kv rest"
proof (induction key)
  case Nil
  have k: "\<And>r. kvpat (CHR ''='' # r) = None" "\<And>r. kvpat (dquote # r) = None"
    by (simp_all add: kvpat_def is_word_def is_space_def)
  show ?case by (simp add: findall_kv_step k)
next
  case (Cons c key)
  have "kvpat ([] @ (c # key) @ ''='' @ [dquote, dquote] @ rest) = None"
    using Cons.prems by (intro kvpat_empty_value) simp_all
  then show ?case using Cons by (simp add: findall_kv_step)
qed

lemma findall_kv_empty_value:
  assumes "list_all is_space ws" "list_all is_word key"
  shows "findall_kv (ws @ key @ ''='' @ [dquote, dquote] @ rest) = findall_kv rest"
  using assms
proof (induction ws)
  case Nil
  then show ?case using findall_kv_skip_key by simp
next
  case (Cons c ws)
  have "kvpat ((c # ws) @ key @ ''='' @ [dquote, dquote] @ rest) = None"
    using Cons.prems by (intro kvpat_empty_value) simp_all
  then show ?case using Cons by (simp add: findall_kv_step)
qed

text \<open>
  Claim C10.  For every header the key-value scanner reads, every value in the attribute
  dictionary it returns is a non-empty string; and an attribute written with an empty
  quoted value (\<^verbatim>\<open>key=""\<close>, after any whitespace) adds nothing: the scan of the text
  that starts with it is the scan of the text behind it.
\<close>

theorem parse_keyvalues_drops_empty_values:
  "(parse_keyvalues s = Inr d \<longrightarrow> (\<forall>(k, v) \<in> set d. v \<noteq> []))
   \<and> (list_all is_space ws \<and> list_all is_word key \<longrightarrow>
        parse_keyvalues (ws @ key @ ''='' @ [dquote, dquote] @ rest) = parse_keyvalues rest)"
proof (intro conjI impI)
  assume a: "parse_keyvalues s = Inr d"
  then obtain m where m: "decode_pairs (findall_kv s) = Inr m" and d: "d = dict m"
    by (auto simp: parse_keyvalues_def split: sum.splits)
  from m have "m = findall_kv s" by (rule decode_pairs_Inr)
  with d set_dict[of m] have "set d \<subseteq> set (findall_kv s)" by simp
  then show "\<forall>(k, v) \<in> set d. v \<noteq> []" using findall_kv_values by blast
next
  assume "list_all is_space ws \<and> list_all is_word key"
  then have "findall_kv (ws @ key @ ''='' @ [dquote, dquote] @ rest) = findall_kv rest"
    by (simp only: findall_kv_empty_value)
  then show "parse_keyvalues (ws @ key @ ''='' @ [dquote, dquote] @ rest) = parse_keyvalues rest"
    by (simp only: parse_keyvalues_def)
qed

theorem parse_keyvalues_drops_empty_values_witness:
  "parse_keyvalues ('' '' @ ''a'' @ ''='' @ [dquote, dquote] @ '' b='' @ [dquote] @ ''x'' @ [dquote])
     = Inr [(''b'', ''x'')]
   \<and> parse_keyvalues ('' b='' @ [dquote] @ ''x'' @ [dquote]) = Inr [(''b'', ''x'')]
   \<and> ''x'' \<noteq> []"
proof -
  have p: "parse_keyvalues ('' b='' @ [dquote] @ ''x'' @ [dquote]) = Inr [(''b'', ''x'')]"
    by code_simp
  have a: "list_all is_space '' '' \<and> list_all is_word ''a''" by code_simp
  note th = parse_keyvalues_drops_empty_values
      [of "'' b='' @ [dquote] @ ''x'' @ [dquote]" "[(''b'', ''x'')]" "'' ''" "''a''"
          "'' b='' @ [dquote] @ ''x'' @ [dquote]"]
  from th have "list_all is_space '' '' \<and> list_all is_word ''a'' \<longrightarrow>
      parse_keyvalues ('' '' @ ''a'' @ ''='' @ [dquote, dquote] @ '' b='' @ [dquote] @ ''x'' @ [dquote])
        = parse_keyvalues ('' b='' @ [dquote] @ ''x'' @ [dquote])"
    by (rule conjunct2)
  from this a have e: "parse_keyvalues ('' '' @ ''a'' @ ''='' @ [dquote, dquote] @ '' b='' @ [dquote] @ ''x'' @ [dquote])
        = parse_keyvalues ('' b='' @ [dquote] @ ''x'' @ [dquote])"
    by (rule mp)
  have n: "''x'' \<noteq> []" by simp
  from e p n show ?thesis by (simp only: simp_thms)
qed

section \<open>The byte count and the end of a level\<close>

lemma andthen_Inr [simp]: "andthen (Inr x) f = f x"
  by (simp add: andthen_def)

lemma andthen_Inl [simp]: "andthen (Inl e) f = Inl e"
  by (simp add: andthen_def)

text \<open>
  Claim C3.  For a binary-encoded data element whose columns share one numeric type, the
  byte count computed for the payload is the row count times the number of columns times
  the byte width of that type; for three rows of three float32 columns it is 36.
\<close>

theorem binary_data_bytecount_uniform:
  assumes "map_of (attrs x) ''ni_form'' = Some niform" and "sublist ''binary'' niform"
    and "vec_typ x = Some tps" and "findonetype tps = Some tp"
    and "numpy_type2bytecount tp = Some w"
    and "vec_len x = Some nrows" and "vec_num x = Some (length tps)"
  shows "binary_data_bytecount x = Inr (Some (nrows * int (length tps) * int w))
     \<and> binary_data_bytecount
           (Niml [(''ni_form'', ''binary.lsbfirst'')] None None
                 (Some [Float32, Float32, Float32]) (Some 3) (Some 3)) = Inr (Some 36)"
proof
  show "binary_data_bytecount x = Inr (Some (nrows * int (length tps) * int w))"
    using assms by (simp add: binary_data_bytecount_def getitem_def getfield_def mult.commute)
  show "binary_data_bytecount
           (Niml [(''ni_form'', ''binary.lsbfirst'')] None None
                 (Some [Float32, Float32, Float32]) (Some 3) (Some 3)) = Inr (Some 36)"
    by code_simp
qed

theorem binary_data_bytecount_uniform_witness:
  "binary_data_bytecount
     (Niml [(''ni_form'', ''binary.msbfirst'')] None None (Some [Int16, Int16]) (Some 5) (Some 2))
     = Inr (Some (5 * int (length [Int16, Int16]) * int 2))"
proof -
  have s: "sublist ''binary'' ''binary.msbfirst''" by code_simp
  show ?thesis
    using binary_data_bytecount_uniform
      [of "Niml [(''ni_form'', ''binary.msbfirst'')] None None (Some [Int16, Int16]) (Some 5) (Some 2)"
          "''binary.msbfirst''" "[Int16, Int16]" Int16 2 5] s
    by simp
qed

lemma replace_nullbyte: "replace [nullbyte] [] r = filter (\<lambda>c. c \<noteq> nullbyte) r"
proof (induction r)
  case Nil
  then show ?case by (subst replace.simps) simp
next
  case (Cons c r)
  then show ?case by (subst replace.simps) simp
qed

lemma strip_empty_iff: "strip x = [] \<longleftrightarrow> list_all is_space x"
proof
  assume "strip x = []"
  then have a: "\<forall>c \<in> set (dropWhile is_space x). is_space c"
    by (simp add: strip_def dropWhile_eq_Nil_conv)
  have "dropWhile is_space x = []"
  proof (rule ccontr)
    assume n: "dropWhile is_space x \<noteq> []"
    then have "\<not> is_space (hd (dropWhile is_space x))" by (rule hd_dropWhile)
    moreover from n have "hd (dropWhile is_space x) \<in> set (dropWhile is_space x)" by simp
    ultimately show False using a by blast
  qed
  then show "list_all is_space x" by (simp add: dropWhile_eq_Nil_conv list_all_iff)
next
  assume "list_all is_space x"
  then have d: "dropWhile is_space x = []" by (simp add: dropWhile_eq_Nil_conv list_all_iff)
  show "strip x = []" unfolding strip_def d by simp
qed

lemma remaining_empty_iff:
  "remaining_empty r \<longleftrightarrow> list_all (\<lambda>c. c = nullbyte \<or> is_space c) r"
  by (auto simp: remaining_empty_def replace_nullbyte strip_empty_iff list_all_iff)

text \<open>
  Claim C9.  When no opening header matches at the current position (behind an XML
  declaration, if one starts there) and a close tag matches instead, the loop returns the
  position and the elements accumulated so far if only null bytes and whitespace follow the
  close tag in the buffer, and fails with the "Unexpected end" error otherwise.
\<close>

theorem close_tag_without_header:
  assumes "skip_xml s i = Inr i1" and "headerpat (py_from s i1) = None"
    and "closepat (py_from s i1) = Some e"
  shows "string2rawniml_loop E s i nimls =
           (if list_all (\<lambda>c. c = nullbyte \<or> is_space c) (py_from s (i1 + int e))
            then Some (Inr (i1, nimls)) else Some (Inl Unexpected_end))"
  by (subst string2rawniml_loop.simps) (simp add: assms remaining_empty_iff)

theorem close_tag_without_header_witness:
  "string2rawniml_loop example_env (''</a> '' @ [nullbyte, newline]) 0 [] = Some (Inr (0, []))
   \<and> string2rawniml_loop example_env ''</a> <b>'' 0 [] = Some (Inl Unexpected_end)"
proof -
  have a: "skip_xml (''</a> '' @ [nullbyte, newline]) 0 = Inr 0"
          "headerpat (py_from (''</a> '' @ [nullbyte, newline]) 0) = None"
          "closepat (py_from (''</a> '' @ [nullbyte, newline]) 0) = Some 5"
          "list_all (\<lambda>c. c = nullbyte \<or> is_space c) (py_from (''</a> '' @ [nullbyte, newline]) (0 + int 5))"
    by code_simp+
  have b: "skip_xml ''</a> <b>'' 0 = Inr 0"
          "headerpat (py_from ''</a> <b>'' 0) = None"
          "closepat (py_from ''</a> <b>'' 0) = Some 5"
          "\<not> list_all (\<lambda>c. c = nullbyte \<or> is_space c) (py_from ''</a> <b>'' (0 + int 5))"
    by code_simp+
  show ?thesis
    using close_tag_without_header[OF a(1,2,3), of example_env "[]"]
          close_tag_without_header[OF b(1,2,3), of example_env "[]"] a(4) b(4)
    by simp
qed

end
